theory Spec2Isabelle
  imports Complex_Main "HOL-Library.Word"
begin

section \<open>Python values\<close>

text \<open>
  The program is \<^verbatim>\<open>take_photo.py\<close>. Its functions read the process environment, the
  clock, the file system, a camera and the network, and they print, post and write
  files. The model makes every such read a field of a \<open>world\<close> record and every such
  write an \<open>event\<close> of a trace; an exception is the left summand of the result.

  Exceptions the program can raise or meet. \<open>OSError\<close> is the class the handler of
  \<^verbatim>\<open>rpi_camera_photo\<close> names; the exception a failing \<^verbatim>\<open>requests.post\<close> raises is
  whatever the world's network returns (under Python 3 the exceptions of
  \<^verbatim>\<open>requests\<close> derive from \<open>OSError\<close>).
\<close>

datatype error =
    KeyError
  | ValueError
  | IndexError
  | OverflowError
  | OSError
  | ConnectionError

text \<open>
  A Python \<^verbatim>\<open>float\<close>. A finite double is read as the real number it denotes and the
  arithmetic of \<^verbatim>\<open>rotate\<close> on it is taken exactly (the rounding of a double
  operation is not modelled); the three non-finite values are kept apart because
  \<^verbatim>\<open>int()\<close> raises on them.
\<close>

datatype pyfloat = Fin real | PosInf | NegInf | NaN

text \<open>\<^verbatim>\<open>int(x)\<close> on a finite float truncates toward zero.\<close>

definition py_int :: "real \<Rightarrow> int" where
  "py_int x = (if x < 0 then \<lceil>x\<rceil> else \<lfloor>x\<rfloor>)"

text \<open>\<^verbatim>\<open>x % y\<close> on floats with a positive divisor: the result lies in \<open>[0, y)\<close>.\<close>

definition py_mod :: "real \<Rightarrow> real \<Rightarrow> real" where
  "py_mod x y = x - y * of_int \<lfloor>x / y\<rfloor>"

text \<open>\<^verbatim>\<open>str(n)\<close> and \<^verbatim>\<open>'{}'.format(n)\<close> for an integer: its decimal digits.\<close>

definition digit_char :: "nat \<Rightarrow> char" where
  "digit_char d = ''0123456789'' ! d"

function str_nat :: "nat \<Rightarrow> string" where
  "str_nat n = (if n < 10 then [digit_char n] else str_nat (n div 10) @ [digit_char (n mod 10)])"
  by pat_completeness auto
termination
  by (relation "measure id") auto

declare str_nat.simps [simp del]

definition str_int :: "int \<Rightarrow> string" where
  "str_int i = (if i < 0 then CHR ''-'' # str_nat (nat (- i)) else str_nat (nat i))"

text \<open>\<^verbatim>\<open>int(c)\<close> for a one-character string: an ASCII decimal digit, or \<open>ValueError\<close>.\<close>

definition int_of_digit :: "char \<Rightarrow> int option" where
  "int_of_digit c = map_of (zip ''0123456789'' [0, 1, 2, 3, 4, 5, 6, 7, 8, 9]) c"

section \<open>The rotation arithmetic of \<^verbatim>\<open>rotate\<close> (lines 41 to 44)\<close>

text \<open>\<^verbatim>\<open>sign = -1 if angle < 0 else 1\<close>\<close>

definition sign_of :: "real \<Rightarrow> int" where
  "sign_of angle = (if angle < 0 then - 1 else 1)"

text \<open>
  \<^verbatim>\<open>turns, remainder = -int(angle / 90.), abs(angle) % 90\<close> followed by
  \<^verbatim>\<open>if remainder > 45: turns -= 1 * sign\<close>.
\<close>

definition remainder_of :: "real \<Rightarrow> real" where
  "remainder_of angle = py_mod \<bar>angle\<bar> 90"

definition turns_of :: "real \<Rightarrow> int" where
  "turns_of angle =
     (let sign = sign_of angle;
          turns = - py_int (angle / 90);
          remainder = remainder_of angle
      in if remainder > 45 then turns - 1 * sign else turns)"

text \<open>\<^verbatim>\<open>angle += 90 * turns\<close>\<close>

definition residual_of :: "real \<Rightarrow> real" where
  "residual_of angle = angle + 90 * of_int (turns_of angle)"

section \<open>The world and the trace\<close>

text \<open>
  A frame is a grid of pixels with three 8-bit channels; \<open>im_height\<close> and \<open>im_width\<close>
  are the first two components of \<^verbatim>\<open>image.shape\<close>.
\<close>

type_synonym pixel = "8 word \<times> 8 word \<times> 8 word"

record image =
  im_height :: nat
  im_width :: nat
  im_rows :: "pixel list list"

definition wf_image :: "image \<Rightarrow> bool" where
  "wf_image m \<longleftrightarrow>
     length (im_rows m) = im_height m \<and> list_all (\<lambda>r. length r = im_width m) (im_rows m)"

text \<open>The dictionary handed to \<^verbatim>\<open>json.dumps\<close> (its serialisation is not modelled).\<close>

datatype json = JString string | JObject "(string \<times> json) list"

datatype cam_prop =
    CAP_PROP_FRAME_WIDTH
  | CAP_PROP_FRAME_HEIGHT
  | CAP_PROP_BRIGHTNESS
  | CAP_PROP_CONTRAST
  | CAP_PROP_SATURATION
  | CAP_PROP_HUE
  | CAP_PROP_GAIN

datatype pyval = PyInt int | PyFloat pyfloat

text \<open>
  What a run does to the outside, in order: \<^verbatim>\<open>print\<close>, \<^verbatim>\<open>requests.post\<close> (url, data,
  headers), \<^verbatim>\<open>cv2.VideoCapture\<close>, \<^verbatim>\<open>sleep(0.1)\<close>, \<^verbatim>\<open>camera.set\<close>, \<^verbatim>\<open>camera.grab\<close>,
  \<^verbatim>\<open>camera.read\<close>, \<^verbatim>\<open>camera.release\<close>, \<^verbatim>\<open>cv2.imwrite\<close> and \<^verbatim>\<open>subprocess.call\<close>.
\<close>

datatype event =
    Print string
  | Post string json "(string \<times> string) list"
  | VideoCapture int
  | Sleep
  | CamSet cam_prop pyval
  | Grab
  | Read
  | Release
  | ImWrite string image
  | Call "string list"

text \<open>
  What a run reads from the outside. \<open>http_post\<close> is the outcome of \<^verbatim>\<open>requests.post\<close>:
  \<open>None\<close> when it returns a response (whose status the program never inspects), the
  exception otherwise. \<open>clock\<close> is \<^verbatim>\<open>int(time())\<close>. \<open>config_float\<close> and \<open>config_int\<close> are
  \<^verbatim>\<open>farmware_tools.get_config_value\<close> at the two value types, by farmware name and
  configuration name. \<open>camera_read\<close> is the pair returned by \<^verbatim>\<open>camera.read()\<close>: \<open>None\<close>
  when \<^verbatim>\<open>ret\<close> is false. \<open>subprocess_call\<close> is the exit status of the utility, or the
  exception raised when it cannot be started. \<open>float_of_string\<close> is the builtin
  \<^verbatim>\<open>float\<close> on a string, \<open>None\<close> for \<open>ValueError\<close>. \<open>interp\<close> is the interpolation
  kernel of \<^verbatim>\<open>cv2.warpAffine\<close>: the pixel sampled from a source image at a real
  coordinate \<open>(x, y)\<close>.
\<close>

record world =
  environ :: "string \<rightharpoonup> string"
  http_post :: "string \<Rightarrow> json \<Rightarrow> (string \<times> string) list \<Rightarrow> error option"
  path_exists :: "string \<Rightarrow> bool"
  clock :: int
  config_float :: "string \<Rightarrow> string \<Rightarrow> pyfloat"
  config_int :: "string \<Rightarrow> string \<Rightarrow> int"
  camera_read :: "image option"
  subprocess_call :: "string list \<Rightarrow> error + int"
  float_of_string :: "string \<Rightarrow> pyfloat option"
  interp :: "image \<Rightarrow> real \<times> real \<Rightarrow> pixel"

text \<open>A run: the events so far, and the exception raised or the value returned.\<close>

type_synonym 'a run = "event list \<times> (error + 'a)"

definition ret :: "'a \<Rightarrow> 'a run" where
  "ret x = ([], Inr x)"

definition emit :: "event \<Rightarrow> unit run" where
  "emit e = ([e], Inr ())"

definition raise :: "error \<Rightarrow> 'a run" where
  "raise e = ([], Inl e)"

text \<open>Sequencing: an exception of the first part skips the second.\<close>

definition bind_run :: "'a run \<Rightarrow> ('a \<Rightarrow> 'b run) \<Rightarrow> 'b run" where
  "bind_run m f =
     (case m of
        (t, Inl e) \<Rightarrow> (t, Inl e)
      | (t, Inr x) \<Rightarrow> (case f x of (t', r) \<Rightarrow> (t @ t', r)))"

definition then_run :: "unit run \<Rightarrow> 'b run \<Rightarrow> 'b run" where
  "then_run m n = bind_run m (\<lambda>_. n)"

fun run_all :: "unit run list \<Rightarrow> unit run" where
  "run_all [] = ret ()"
| "run_all (m # ms) = then_run m (run_all ms)"

text \<open>\<^verbatim>\<open>try: m  except OSError: h\<close>: only \<open>OSError\<close> enters the handler.\<close>

definition except_OSError :: "'a run \<Rightarrow> 'a run \<Rightarrow> 'a run" where
  "except_OSError m h =
     (case m of
        (t, Inl OSError) \<Rightarrow> (case h of (t', r) \<Rightarrow> (t @ t', r))
      | (t, r) \<Rightarrow> (t, r))"

section \<open>\<^verbatim>\<open>farmware_api_url\<close> and \<^verbatim>\<open>log\<close> (lines 16 to 36)\<close>

text \<open>
  \<^verbatim>\<open>os.getenv('FARMBOT_OS_VERSION', '0.0.0')[0]\<close> raises \<open>IndexError\<close> on the empty
  string, \<^verbatim>\<open>int\<close> raises \<open>ValueError\<close> on a character that is no digit, and
  \<^verbatim>\<open>os.environ['FARMWARE_URL']\<close> raises \<open>KeyError\<close> when the variable is unset.
\<close>

definition farmware_api_url :: "(string \<rightharpoonup> string) \<Rightarrow> error + string" where
  "farmware_api_url env =
     (case (case env ''FARMBOT_OS_VERSION'' of None \<Rightarrow> ''0.0.0'' | Some v \<Rightarrow> v) of
        [] \<Rightarrow> Inl IndexError
      | c # _ \<Rightarrow>
          (case int_of_digit c of
             None \<Rightarrow> Inl ValueError
           | Some major_version \<Rightarrow>
               (case env ''FARMWARE_URL'' of
                  None \<Rightarrow> Inl KeyError
                | Some base_url \<Rightarrow>
                    Inr (if major_version > 5 then base_url @ ''api/v1/'' else base_url))))"

definition log_headers :: "string \<Rightarrow> (string \<times> string) list" where
  "log_headers token =
     [(''Authorization'', ''bearer '' @ token), (''content-type'', ''application/json'')]"

definition log_payload :: "string \<Rightarrow> string \<Rightarrow> json" where
  "log_payload log_message message_type =
     JObject [(''kind'', JString ''send_message''),
              (''args'', JObject [(''message'', JString log_message),
                                  (''message_type'', JString message_type)])]"

text \<open>\<^verbatim>\<open>requests.post(url, data=payload, headers=headers)\<close>, in no handler.\<close>

definition requests_post :: "world \<Rightarrow> string \<Rightarrow> json \<Rightarrow> (string \<times> string) list \<Rightarrow> unit run" where
  "requests_post w url payload headers =
     ([Post url payload headers],
      (case http_post w url payload headers of None \<Rightarrow> Inr () | Some e \<Rightarrow> Inl e))"

text \<open>
  From here on \<open>log\<close> is the program's function, not the logarithm, and further down
  \<open>rotate\<close> is the program's, not the rotation of a list.

  The \<^verbatim>\<open>try\<close> of \<^verbatim>\<open>log\<close> covers the lookup of \<^verbatim>\<open>FARMWARE_URL\<close> alone; the \<^verbatim>\<open>else\<close> branch,
  with the token lookup, the URL and the post, runs outside it. Messages are strings,
  on which \<^verbatim>\<open>str\<close> is the identity.
\<close>

definition log :: "world \<Rightarrow> string \<Rightarrow> string \<Rightarrow> unit run" where
  "log w message message_type =
     (case environ w ''FARMWARE_URL'' of
        None \<Rightarrow> emit (Print message)
      | Some _ \<Rightarrow>
          (let log_message = ''[take-photo] '' @ message in
           case environ w ''FARMWARE_TOKEN'' of
             None \<Rightarrow> raise KeyError
           | Some token \<Rightarrow>
               (let headers = log_headers token;
                    payload = log_payload log_message message_type
                in case farmware_api_url (environ w) of
                     Inl e \<Rightarrow> raise e
                   | Inr url \<Rightarrow> requests_post w (url @ ''celery_script'') payload headers)))"

section \<open>\<^verbatim>\<open>rotate\<close> (lines 38 to 48)\<close>

text \<open>
  \<^verbatim>\<open>numpy.rot90(m, k)\<close> reduces \<open>k\<close> modulo 4 and returns \<open>m\<close>, or
  \<^verbatim>\<open>transpose(flip(m, 1))\<close>, or \<^verbatim>\<open>flip(flip(m, 0), 1)\<close>, or \<^verbatim>\<open>flip(transpose(m), 1)\<close>.
\<close>

definition flip0 :: "image \<Rightarrow> image" where
  "flip0 m = m\<lparr>im_rows := rev (im_rows m)\<rparr>"

definition flip1 :: "image \<Rightarrow> image" where
  "flip1 m = m\<lparr>im_rows := map rev (im_rows m)\<rparr>"

definition transpose_im :: "image \<Rightarrow> image" where
  "transpose_im m =
     \<lparr>im_height = im_width m, im_width = im_height m,
      im_rows = map (\<lambda>j. map (\<lambda>i. im_rows m ! i ! j) [0..<im_height m]) [0..<im_width m]\<rparr>"

definition rot90 :: "image \<Rightarrow> int \<Rightarrow> image" where
  "rot90 m k =
     (let k = k mod 4
      in if k = 0 then m
         else if k = 2 then flip1 (flip0 m)
         else if k = 1 then transpose_im (flip1 m)
         else flip1 (transpose_im m))"

text \<open>
  \<^verbatim>\<open>cv2.getRotationMatrix2D(center, angle, scale)\<close>: the 2 by 3 matrix
  \<open>[[\<alpha>, \<beta>, (1 - \<alpha>) cx - \<beta> cy], [- \<beta>, \<alpha>, \<beta> cx + (1 - \<alpha>) cy]]\<close> with
  \<open>\<alpha> = scale cos angle\<close> and \<open>\<beta> = scale sin angle\<close>, the angle in degrees.
\<close>

type_synonym affine = "(real \<times> real \<times> real) \<times> (real \<times> real \<times> real)"

definition getRotationMatrix2D :: "int \<times> int \<Rightarrow> real \<Rightarrow> real \<Rightarrow> affine" where
  "getRotationMatrix2D center angle scale =
     (let cx = of_int (fst center); cy = of_int (snd center);
          \<alpha> = scale * cos (angle * pi / 180);
          \<beta> = scale * sin (angle * pi / 180)
      in ((\<alpha>, \<beta>, (1 - \<alpha>) * cx - \<beta> * cy), (- \<beta>, \<alpha>, \<beta> * cx + (1 - \<alpha>) * cy)))"

text \<open>
  \<^verbatim>\<open>cv2.warpAffine(src, M, dsize)\<close> without \<^verbatim>\<open>WARP_INVERSE_MAP\<close>: the matrix is inverted
  and the destination, of size \<open>dsize = (width, height)\<close>, takes at \<open>(x, y)\<close> the source
  sampled at the image of \<open>(x, y)\<close> under the inverse.
\<close>

definition invertAffineTransform :: "affine \<Rightarrow> affine" where
  "invertAffineTransform M =
     (case M of ((m11, m12, m13), (m21, m22, m23)) \<Rightarrow>
        (let d = m11 * m22 - m12 * m21;
             d = (if d \<noteq> 0 then 1 / d else 0);
             a11 = m22 * d; a22 = m11 * d; a12 = - m12 * d; a21 = - m21 * d;
             b1 = - a11 * m13 - a12 * m23;
             b2 = - a21 * m13 - a22 * m23
         in ((a11, a12, b1), (a21, a22, b2))))"

definition warpAffine :: "(image \<Rightarrow> real \<times> real \<Rightarrow> pixel) \<Rightarrow> image \<Rightarrow> affine \<Rightarrow> nat \<times> nat \<Rightarrow> image" where
  "warpAffine sample src M dsize =
     (case invertAffineTransform M of ((a11, a12, b1), (a21, a22, b2)) \<Rightarrow>
        \<lparr>im_height = snd dsize, im_width = fst dsize,
         im_rows =
           map (\<lambda>y. map (\<lambda>x. sample src (a11 * of_nat x + a12 * of_nat y + b1,
                                          a21 * of_nat x + a22 * of_nat y + b2))
                         [0..<fst dsize])
               [0..<snd dsize]\<rparr>)"

text \<open>Lines 45 to 48, for the quarter turns and the residual angle computed before.\<close>

definition rotate_image :: "(image \<Rightarrow> real \<times> real \<Rightarrow> pixel) \<Rightarrow> image \<Rightarrow> int \<Rightarrow> real \<Rightarrow> image" where
  "rotate_image sample img turns angle =
     (let img = rot90 img turns;
          height = im_height img; width = im_width img;
          matrix = getRotationMatrix2D (int (width div 2), int (height div 2)) angle 1
      in warpAffine sample img matrix (width, height))"

text \<open>
  Lines 41 to 48 for the float read at line 40. On \<open>nan\<close> the call \<^verbatim>\<open>int(angle / 90.)\<close>
  raises \<open>ValueError\<close>, on an infinity \<open>OverflowError\<close>.
\<close>

definition rotate_by :: "(image \<Rightarrow> real \<times> real \<Rightarrow> pixel) \<Rightarrow> image \<Rightarrow> pyfloat \<Rightarrow> error + image" where
  "rotate_by sample img angle =
     (case angle of
        NaN \<Rightarrow> Inl ValueError
      | PosInf \<Rightarrow> Inl OverflowError
      | NegInf \<Rightarrow> Inl OverflowError
      | Fin a \<Rightarrow> Inr (rotate_image sample img (turns_of a) (residual_of a)))"

definition rotate :: "world \<Rightarrow> image \<Rightarrow> error + image" where
  "rotate w img =
     (case environ w ''CAMERA_CALIBRATION_total_rotation_angle'' of
        None \<Rightarrow> Inl KeyError
      | Some s \<Rightarrow>
          (case float_of_string w s of
             None \<Rightarrow> Inl ValueError
           | Some angle \<Rightarrow> rotate_by (interp w) img angle))"

section \<open>\<^verbatim>\<open>image_filename\<close> and \<^verbatim>\<open>upload_path\<close> (lines 50 to 63)\<close>

definition image_filename :: "world \<Rightarrow> string" where
  "image_filename w = (let epoch = clock w in str_int epoch @ ''.jpg'')"

definition upload_path :: "world \<Rightarrow> string \<Rightarrow> string" where
  "upload_path w filename =
     (let images_dir = (case environ w ''IMAGES_DIR'' of None \<Rightarrow> ''/tmp/images'' | Some d \<Rightarrow> d)
      in images_dir @ ''/'' @ filename)"

section \<open>\<^verbatim>\<open>usb_camera_photo\<close> (lines 65 to 150)\<close>

text \<open>
  Lines 68 to 78: the probe of \<^verbatim>\<open>/dev/video0\<close> and \<^verbatim>\<open>/dev/video1\<close>. It returns
  \<^verbatim>\<open>camera_port\<close>, which is 1 as soon as the first device is absent.
\<close>

definition probe_camera :: "world \<Rightarrow> int run" where
  "probe_camera w =
     (let camera_port = 0
      in if \<not> path_exists w (''/dev/video'' @ str_int camera_port) then
           then_run (emit (Print (''No camera detected at video'' @ str_int camera_port @ ''.'')))
             (let camera_port = camera_port + 1
              in then_run (emit (Print (''Trying video'' @ str_int camera_port @ ''...'')))
                   (if \<not> path_exists w (''/dev/video'' @ str_int camera_port) then
                      then_run
                        (emit (Print (''No camera detected at video'' @ str_int camera_port @ ''.'')))
                        (then_run (log w ''USB Camera not detected.'' ''error'') (ret camera_port))
                    else ret camera_port))
         else ret camera_port)"

text \<open>
  Lines 86 to 123: the seven settings are read, then applied in the order of the
  source. Width and height have an \<^verbatim>\<open>else\<close> branch that sets the constant.
\<close>

definition usb_parameters :: "world \<Rightarrow> unit run" where
  "usb_parameters w =
     (let brightness = config_float w ''take-photo'' ''brightness_val'';
          contrast = config_float w ''take-photo'' ''contrast_val'';
          saturation = config_float w ''take-photo'' ''saturation_val'';
          hue = config_float w ''take-photo'' ''hue_val'';
          gain = config_float w ''take-photo'' ''gain_val'';
          width = config_int w ''take-photo'' ''width_val'';
          height = config_int w ''take-photo'' ''height_val''
      in run_all
           [if width \<noteq> 640 then
              then_run (emit (CamSet CAP_PROP_FRAME_WIDTH (PyInt width)))
                (log w (''Resolution width:'' @ str_int width) ''info'')
            else emit (CamSet CAP_PROP_FRAME_WIDTH (PyInt 640)),
            if height \<noteq> 480 then
              then_run (emit (CamSet CAP_PROP_FRAME_HEIGHT (PyInt height)))
                (log w (''Resolution height:'' @ str_int height) ''info'')
            else emit (CamSet CAP_PROP_FRAME_HEIGHT (PyInt 480)),
            if brightness \<noteq> Fin 10 then
              then_run (emit (CamSet CAP_PROP_BRIGHTNESS (PyFloat brightness)))
                (log w ''set brightness'' ''info'')
            else ret (),
            if contrast \<noteq> Fin 10 then
              then_run (emit (CamSet CAP_PROP_CONTRAST (PyFloat contrast)))
                (log w ''set contrast'' ''info'')
            else ret (),
            if saturation \<noteq> Fin 10 then
              then_run (emit (CamSet CAP_PROP_SATURATION (PyFloat saturation)))
                (log w ''set saturation'' ''info'')
            else ret (),
            if hue \<noteq> Fin 10 then
              then_run (emit (CamSet CAP_PROP_HUE (PyFloat hue)))
                (log w ''set hue'' ''info'')
            else ret (),
            if gain \<noteq> Fin 10 then
              then_run (emit (CamSet CAP_PROP_GAIN (PyFloat gain)))
                (log w ''set gain'' ''info'')
            else ret ()])"

text \<open>
  Lines 137 to 150. The bare \<^verbatim>\<open>except\<close> takes every exception of \<^verbatim>\<open>rotate\<close>; the
  \<^verbatim>\<open>else\<close> branch, which prefixes the name, runs when there was none.
\<close>

definition usb_output :: "world \<Rightarrow> image option \<Rightarrow> unit run" where
  "usb_output w r =
     (case r of
        Some img \<Rightarrow>
          (let filename = image_filename w;
               (final_image, filename) =
                  (case rotate w img of
                     Inl _ \<Rightarrow> (img, filename)
                   | Inr rotated \<Rightarrow> (rotated, ''rotated_'' @ filename))
           in then_run (emit (ImWrite (upload_path w filename) final_image))
                (emit (Print (''Image saved: '' @ upload_path w filename))))
      | None \<Rightarrow> log w ''Problem getting image.'' ''error'')"

text \<open>Lines 68 to 123: probe, open, settle, settings.\<close>

definition usb_setup :: "world \<Rightarrow> unit run" where
  "usb_setup w =
     bind_run (probe_camera w) (\<lambda>camera_port.
       run_all [emit (VideoCapture camera_port), emit Sleep, usb_parameters w])"

text \<open>Lines 126 to 150: twenty discarded frames, the read, the release, the output.\<close>

definition usb_capture :: "world \<Rightarrow> unit run" where
  "usb_capture w =
     (let discard_frames = 20
      in run_all (replicate discard_frames (emit Grab) @
           [emit Read, emit Release, usb_output w (camera_read w)]))"

definition usb_camera_photo :: "world \<Rightarrow> unit run" where
  "usb_camera_photo w = then_run (usb_setup w) (usb_capture w)"

section \<open>\<^verbatim>\<open>rpi_camera_photo\<close> (lines 152 to 164)\<close>

definition raspistill :: "string \<Rightarrow> string list" where
  "raspistill filename_path =
     [''raspistill'', ''-w'', ''640'', ''-h'', ''480'', ''-o'', filename_path]"

definition rpi_camera_photo :: "world \<Rightarrow> unit run" where
  "rpi_camera_photo w =
     except_OSError
       (let filename_path = upload_path w (image_filename w)
        in case subprocess_call w (raspistill filename_path) of
             Inl e \<Rightarrow> ([Call (raspistill filename_path)], Inl e)
           | Inr retcode \<Rightarrow>
               then_run (emit (Call (raspistill filename_path)))
                 (if retcode = 0 then emit (Print (''Image saved: '' @ filename_path))
                  else log w ''Problem getting image.'' ''error''))
       (log w ''Raspberry Pi Camera not detected.'' ''error'')"

section \<open>The entry point (lines 166 to 175)\<close>

text \<open>\<^verbatim>\<open>s in t\<close> on strings.\<close>

definition py_in :: "string \<Rightarrow> string \<Rightarrow> bool" where
  "py_in s t = list_ex (\<lambda>i. take (length s) (drop i t) = s) [0..<Suc (length t)]"

definition main :: "world \<Rightarrow> unit run" where
  "main w =
     (let CAMERA = (case environ w ''camera'' of None \<Rightarrow> ''USB'' | Some c \<Rightarrow> c)
      in if py_in ''RPI'' CAMERA then rpi_camera_photo w else usb_camera_photo w)"

section \<open>Concrete worlds\<close>

text \<open>
  The worlds at which the theorems below are evaluated. \<open>frame12\<close> is a frame one pixel
  high and two wide; \<open>nearest\<close> samples the nearest pixel and is black outside the
  source; \<open>float_table\<close> is \<^verbatim>\<open>float\<close> on the few strings used here.
\<close>

definition frame12 :: image where
  "frame12 = \<lparr>im_height = 1, im_width = 2, im_rows = [[(1, 2, 3), (4, 5, 6)]]\<rparr>"

definition nearest :: "image \<Rightarrow> real \<times> real \<Rightarrow> pixel" where
  "nearest m p =
     (let x = \<lfloor>fst p + 1 / 2\<rfloor>; y = \<lfloor>snd p + 1 / 2\<rfloor>
      in if 0 \<le> x \<and> x < int (im_width m) \<and> 0 \<le> y \<and> y < int (im_height m)
         then im_rows m ! nat y ! nat x else (0, 0, 0))"

definition float_table :: "string \<Rightarrow> pyfloat option" where
  "float_table =
     map_of [(''0'', Fin 0), (''90'', Fin 90), (''165'', Fin 165), (''nan'', NaN),
             (''inf'', PosInf)]"

text \<open>
  No environment variable is set: reports go to the console, images to
  \<^verbatim>\<open>/tmp/images\<close>, and there is no calibration angle. Both video devices exist, every
  setting has its sentinel value, the camera returns \<open>frame12\<close> and the capture utility
  exits with status 0.
\<close>

definition console_world :: world where
  "console_world =
     \<lparr>environ = Map.empty,
      http_post = (\<lambda>_ _ _. None),
      path_exists = (\<lambda>_. True),
      clock = 1700000000,
      config_float = (\<lambda>_ _. Fin 10),
      config_int = (\<lambda>_ name. if name = ''width_val'' then 640 else 480),
      camera_read = Some frame12,
      subprocess_call = (\<lambda>_. Inr 0),
      float_of_string = float_table,
      interp = nearest\<rparr>"

text \<open>The reporter's three variables are set and every post is answered.\<close>

definition remote_env :: "string \<rightharpoonup> string" where
  "remote_env =
     [''FARMWARE_URL'' \<mapsto> ''http://farmbot/'', ''FARMWARE_TOKEN'' \<mapsto> ''secret'',
      ''FARMBOT_OS_VERSION'' \<mapsto> ''6.4.2'']"

definition remote_world :: world where
  "remote_world = console_world\<lparr>environ := remote_env\<rparr>"


text \<open>A calibration angle of 90 degrees.\<close>

definition quarter_world :: world where
  "quarter_world =
     console_world\<lparr>environ := [''CAMERA_CALIBRATION_total_rotation_angle'' \<mapsto> ''90'']\<rparr>"

text \<open>A calibration angle of 0 degrees.\<close>

definition upright_world :: world where
  "upright_world =
     console_world\<lparr>environ := [''CAMERA_CALIBRATION_total_rotation_angle'' \<mapsto> ''0'']\<rparr>"


text \<open>A platform at major version 10.\<close>

definition two_digit_env :: "string \<rightharpoonup> string" where
  "two_digit_env =
     [''FARMWARE_URL'' \<mapsto> ''http://farmbot/'', ''FARMWARE_TOKEN'' \<mapsto> ''secret'',
      ''FARMBOT_OS_VERSION'' \<mapsto> ''10.0.0'']"

text \<open>
  The major version of a platform version string as the specification means it: the
  decimal number before the first dot. It is compared below with what
  \<^verbatim>\<open>farmware_api_url\<close> reads, the first character alone.
\<close>

definition spec_major_version :: "string \<Rightarrow> int option" where
  "spec_major_version v =
     (let ds = takeWhile (\<lambda>c. c \<noteq> CHR ''.'') v
      in if ds \<noteq> [] \<and> list_all (\<lambda>c. int_of_digit c \<noteq> None) ds
         then Some (foldl (\<lambda>n c. 10 * n + the (int_of_digit c)) 0 ds) else None)"

section \<open>Properties\<close>

subsection \<open>Runs\<close>

lemma then_run_Inr: "then_run (t, Inr u) n = (t @ fst n, snd n)"
  by (simp add: then_run_def bind_run_def split: prod.splits)



lemma then_run_ret: "then_run (ret ()) n = n"
  by (simp add: ret_def then_run_Inr)


lemma then_run_assoc: "then_run (then_run a b) c = then_run a (then_run b c)"
  by (cases a; cases b; cases c) (auto simp add: then_run_def bind_run_def split: sum.splits)

lemma then_run_returns: "snd m = Inr () \<Longrightarrow> then_run m n = (fst m @ fst n, snd n)"
  by (cases m) (simp add: then_run_Inr)

lemma run_all_replicate_emit:
  "run_all (replicate n ([e], Inr ()) @ ms) = (replicate n e @ fst (run_all ms), snd (run_all ms))"
  by (induction n) (simp_all add: then_run_Inr)


subsection \<open>The rotation arithmetic\<close>




subsection \<open>The decomposition of the calibration angle\<close>



subsection \<open>The status reporter\<close>


lemma remote_world_ready:
  "environ remote_world ''FARMWARE_URL'' = Some ''http://farmbot/''
   \<and> environ remote_world ''FARMWARE_TOKEN'' = Some ''secret''
   \<and> farmware_api_url (environ remote_world) = Inr ''http://farmbot/api/v1/''"
  by (simp add: remote_world_def console_world_def remote_env_def farmware_api_url_def
      int_of_digit_def)


text \<open>
  C4. The claim is that the endpoint carries \<^verbatim>\<open>api/v1/\<close> whenever the platform's major
  version is above 5, for every version string. The code reads the first character of
  the string as the major version: at version \<^verbatim>\<open>10.0.0\<close>, whose major version is 10,
  it reads 1 and returns the bare base URL.
\<close>

theorem farmware_api_url_first_character:
  "two_digit_env ''FARMBOT_OS_VERSION'' = Some ''10.0.0''
   \<and> spec_major_version ''10.0.0'' = Some 10
   \<and> farmware_api_url two_digit_env = Inr ''http://farmbot/''"
  by (simp add: two_digit_env_def spec_major_version_def farmware_api_url_def int_of_digit_def)

text \<open>
  Where the major version has one digit, the code and the specification agree.
\<close>

lemma farmware_api_url_one_digit:
  assumes "env ''FARMBOT_OS_VERSION'' = Some (c # CHR ''.'' # rest)"
    and "int_of_digit c = Some d"
    and "env ''FARMWARE_URL'' = Some base_url"
  shows "spec_major_version (c # CHR ''.'' # rest) = Some d
    \<and> farmware_api_url env = Inr (if d > 5 then base_url @ ''api/v1/'' else base_url)"
proof -
  have "int_of_digit (CHR ''.'') = None"
    by (simp add: int_of_digit_def)
  then have "c \<noteq> CHR ''.''"
    using assms(2) by auto
  then show ?thesis
    using assms by (simp add: spec_major_version_def farmware_api_url_def)
qed



text \<open>
  C10. Whatever the environment, a payload that \<^verbatim>\<open>log\<close> posts carries as its message
  the caller's message after the prefix \<^verbatim>\<open>[take-photo] \<close>; on the console path the
  message is printed without it.
\<close>

theorem log_message_prefix:
  "(\<forall>e \<in> set (fst (log w message message_type)). \<forall>url payload headers.
       e = Post url payload headers \<longrightarrow>
       payload = JObject [(''kind'', JString ''send_message''),
                     (''args'', JObject [(''message'', JString (''[take-photo] '' @ message)),
                                         (''message_type'', JString message_type)])])
   \<and> (environ w ''FARMWARE_URL'' = None \<longrightarrow> fst (log w message message_type) = [Print message])"
  by (auto simp add: log_def emit_def raise_def requests_post_def log_payload_def Let_def
      split: option.splits sum.splits)

theorem log_message_prefix_witness:
  "Post ''http://farmbot/api/v1/celery_script''
      (JObject [(''kind'', JString ''send_message''),
                (''args'', JObject [(''message'', JString ''[take-photo] hello''),
                                    (''message_type'', JString ''info'')])])
      (log_headers ''secret'') \<in> set (fst (log remote_world ''hello'' ''info''))
   \<and> environ console_world ''FARMWARE_URL'' = None
   \<and> fst (log console_world ''hello'' ''info'') = [Print ''hello'']"
proof -
  have a: "environ console_world ''FARMWARE_URL'' = None"
    by (simp add: console_world_def)
  have b: "fst (log remote_world ''hello'' ''info'') =
      [Post ''http://farmbot/api/v1/celery_script''
         (log_payload ''[take-photo] hello'' ''info'') (log_headers ''secret'')]"
    using remote_world_ready by (simp add: log_def requests_post_def Let_def)
  show ?thesis
    using a b log_message_prefix [of remote_world "''hello''" "''info''"]
      log_message_prefix [of console_world "''hello''" "''info''"]
    by simp
qed



lemma console_usb_setup:
  "usb_setup console_world =
     ([VideoCapture 0, Sleep, CamSet CAP_PROP_FRAME_WIDTH (PyInt 640),
       CamSet CAP_PROP_FRAME_HEIGHT (PyInt 480)], Inr ())"
  by (simp add: usb_setup_def probe_camera_def usb_parameters_def console_world_def Let_def
      bind_run_def ret_def emit_def then_run_Inr)



subsection \<open>The USB capture path\<close>

lemma run_all_append: "run_all (xs @ ys) = then_run (run_all xs) (run_all ys)"
  by (induction xs) (simp_all add: then_run_ret then_run_assoc)







lemma str_nat_head: "str_nat n \<noteq> [] \<and> hd (str_nat n) \<in> set ''0123456789''"
proof (induction n rule: str_nat.induct)
  case (1 n)
  show ?case
  proof (cases "n < 10")
    case True
    then have "digit_char n \<in> set ''0123456789''"
      unfolding digit_char_def by (intro nth_mem) simp
    then show ?thesis
      using True by (subst (1 2) str_nat.simps) simp
  next
    case False
    then show ?thesis
      using "1.IH" by (subst (1 2) str_nat.simps) simp
  qed
qed

lemma image_filename_not_prefixed: "take 8 (image_filename w) \<noteq> ''rotated_''"
proof -
  obtain c cs where c: "str_nat (nat \<bar>clock w\<bar>) = c # cs" and "c \<in> set ''0123456789''"
    using str_nat_head [of "nat \<bar>clock w\<bar>"] by (cases "str_nat (nat \<bar>clock w\<bar>)") auto
  then have "c \<noteq> CHR ''r''"
    by auto
  then show ?thesis
    using c by (cases "clock w < 0") (simp_all add: image_filename_def str_int_def)
qed

lemma usb_capture_Some:
  "camera_read w = Some img \<Longrightarrow>
   usb_capture w =
     (replicate 20 Grab @ [Read, Release] @
        (case rotate w img of
           Inl e \<Rightarrow>
             [ImWrite (upload_path w (image_filename w)) img,
              Print (''Image saved: '' @ upload_path w (image_filename w))]
         | Inr rotated \<Rightarrow>
             [ImWrite (upload_path w (''rotated_'' @ image_filename w)) rotated,
              Print (''Image saved: '' @ upload_path w (''rotated_'' @ image_filename w))]),
      Inr ())"
  by (simp add: usb_capture_def usb_output_def emit_def ret_def Let_def run_all_replicate_emit
      then_run_Inr split: sum.splits)

text \<open>
  \<^verbatim>\<open>rotate\<close> raises exactly when the calibration angle is missing from the
  environment, is no float, or is not finite.
\<close>

lemma rotate_fails_iff:
  "isl (rotate w img) \<longleftrightarrow>
     (case environ w ''CAMERA_CALIBRATION_total_rotation_angle'' of
        None \<Rightarrow> True
      | Some s \<Rightarrow> (case float_of_string w s of Some (Fin a) \<Rightarrow> False | _ \<Rightarrow> True))"
  by (simp add: rotate_def rotate_by_def split: option.splits pyfloat.splits)

text \<open>
  C5. In a USB run that reaches the read and gets a frame: when \<^verbatim>\<open>rotate\<close> raises,
  the frame as read is written under the timestamp name; when it returns, the image it
  returns is written under that name prefixed with \<^verbatim>\<open>rotated_\<close>. The timestamp name
  never starts with the prefix, so the written name has it exactly when the correction
  was applied.
\<close>

theorem usb_output_name:
  "camera_read w = Some img \<Longrightarrow> snd (usb_setup w) = Inr () \<Longrightarrow>
   usb_camera_photo w =
     (fst (usb_setup w) @ replicate 20 Grab @ [Read, Release] @
        (case rotate w img of
           Inl e \<Rightarrow>
             [ImWrite (upload_path w (image_filename w)) img,
              Print (''Image saved: '' @ upload_path w (image_filename w))]
         | Inr rotated \<Rightarrow>
             [ImWrite (upload_path w (''rotated_'' @ image_filename w)) rotated,
              Print (''Image saved: '' @ upload_path w (''rotated_'' @ image_filename w))]),
      Inr ())
   \<and> take 8 (image_filename w) \<noteq> ''rotated_''"
  by (simp add: usb_camera_photo_def then_run_returns usb_capture_Some image_filename_not_prefixed)

lemma quarter_usb_setup:
  "usb_setup quarter_world =
     ([VideoCapture 0, Sleep, CamSet CAP_PROP_FRAME_WIDTH (PyInt 640),
       CamSet CAP_PROP_FRAME_HEIGHT (PyInt 480)], Inr ())"
  by (simp add: usb_setup_def probe_camera_def usb_parameters_def quarter_world_def
      console_world_def Let_def bind_run_def ret_def emit_def then_run_Inr)

lemma turns_90: "turns_of 90 = - 1 \<and> residual_of 90 = 0"
  by (simp add: turns_of_def residual_of_def Let_def remainder_of_def py_mod_def py_int_def
      sign_of_def)

lemma quarter_rotate:
  "rotate quarter_world img = Inr (rotate_image nearest img (- 1) 0)"
  by (simp add: rotate_def rotate_by_def quarter_world_def console_world_def float_table_def
      turns_90)

lemma console_rotate: "rotate console_world img = Inl KeyError"
  by (simp add: rotate_def console_world_def)

lemma filename_1700000000: "str_int 1700000000 = ''1700000000''"
  by (simp add: str_int_def str_nat.simps digit_char_def)

theorem usb_output_name_witness:
  "usb_camera_photo console_world =
     ([VideoCapture 0, Sleep, CamSet CAP_PROP_FRAME_WIDTH (PyInt 640),
       CamSet CAP_PROP_FRAME_HEIGHT (PyInt 480)] @ replicate 20 Grab @
      [Read, Release, ImWrite ''/tmp/images/1700000000.jpg'' frame12,
       Print ''Image saved: /tmp/images/1700000000.jpg''], Inr ())
   \<and> usb_camera_photo quarter_world =
     ([VideoCapture 0, Sleep, CamSet CAP_PROP_FRAME_WIDTH (PyInt 640),
       CamSet CAP_PROP_FRAME_HEIGHT (PyInt 480)] @ replicate 20 Grab @
      [Read, Release,
       ImWrite ''/tmp/images/rotated_1700000000.jpg'' (rotate_image nearest frame12 (- 1) 0),
       Print ''Image saved: /tmp/images/rotated_1700000000.jpg''], Inr ())"
proof -
  have a: "camera_read console_world = Some frame12 \<and> camera_read quarter_world = Some frame12"
    by (simp add: quarter_world_def console_world_def)
  have b: "image_filename console_world = ''1700000000.jpg''
      \<and> image_filename quarter_world = ''1700000000.jpg''"
    by (simp add: image_filename_def quarter_world_def console_world_def filename_1700000000)
  have c: "upload_path console_world n = ''/tmp/images/'' @ n
      \<and> upload_path quarter_world n = ''/tmp/images/'' @ n" for n
    by (simp add: upload_path_def quarter_world_def console_world_def)
  show ?thesis
    using usb_output_name [of console_world frame12] usb_output_name [of quarter_world frame12]
    by (simp add: a b c console_usb_setup quarter_usb_setup console_rotate quarter_rotate)
qed

subsection \<open>The board-camera path\<close>




subsection \<open>The orientation corrector\<close>

lemma rotate_finite:
  "environ w ''CAMERA_CALIBRATION_total_rotation_angle'' = Some s \<Longrightarrow>
   float_of_string w s = Some (Fin a) \<Longrightarrow>
   rotate w img = Inr (rotate_image (interp w) img (turns_of a) (residual_of a))"
  by (simp add: rotate_def rotate_by_def)










lemma turns_0: "turns_of 0 = 0 \<and> residual_of 0 = 0"
  by (simp add: turns_of_def residual_of_def Let_def remainder_of_def py_mod_def py_int_def
      sign_of_def)

lemma identity_matrix: "getRotationMatrix2D c 0 1 = ((1, 0, 0), (0, 1, 0))"
  by (simp add: getRotationMatrix2D_def Let_def)

lemma warp_identity:
  assumes "wf_image img"
    and "\<forall>y < im_height img. \<forall>x < im_width img. sample img (real x, real y) = im_rows img ! y ! x"
  shows "warpAffine sample img ((1, 0, 0), (0, 1, 0)) (im_width img, im_height img) = img"
proof -
  have len: "length (im_rows img) = im_height img"
    using assms(1) by (simp add: wf_image_def)
  have row: "\<And>y. y < im_height img \<Longrightarrow> length (im_rows img ! y) = im_width img"
    using assms(1) by (simp add: wf_image_def list_all_length)
  have "map (\<lambda>y. map (\<lambda>x. sample img (real x, real y)) [0..<im_width img]) [0..<im_height img]
      = im_rows img"
  proof (rule nth_equalityI)
    show "length (map (\<lambda>y. map (\<lambda>x. sample img (real x, real y)) [0..<im_width img])
        [0..<im_height img]) = length (im_rows img)"
      using len by simp
  next
    fix y
    assume "y < length (map (\<lambda>y. map (\<lambda>x. sample img (real x, real y)) [0..<im_width img])
        [0..<im_height img])"
    then have y: "y < im_height img" by simp
    have "map (\<lambda>x. sample img (real x, real y)) [0..<im_width img] = im_rows img ! y"
      using assms(2) y row [OF y] by (intro nth_equalityI) simp_all
    then show "map (\<lambda>y. map (\<lambda>x. sample img (real x, real y)) [0..<im_width img])
        [0..<im_height img] ! y = im_rows img ! y"
      using y by simp
  qed
  then show ?thesis
    by (simp add: warpAffine_def invertAffineTransform_def)
qed

text \<open>
  C7. At a calibration angle of 0, \<^verbatim>\<open>rotate\<close> computes zero quarter turns and a zero
  residual angle, the matrix it hands to the warp is the identity, and the image it
  returns is the input, pixel for pixel. The image is a well-formed grid, and the
  interpolation kernel of the warp, which is the library's, returns at a whole
  coordinate inside the source the pixel stored there.
\<close>

theorem rotate_zero_identity:
  assumes "environ w ''CAMERA_CALIBRATION_total_rotation_angle'' = Some s"
    and "float_of_string w s = Some (Fin 0)"
    and "wf_image img"
    and "\<forall>y < im_height img. \<forall>x < im_width img. interp w img (real x, real y) = im_rows img ! y ! x"
  shows "turns_of 0 = 0 \<and> residual_of 0 = 0
    \<and> getRotationMatrix2D (int (im_width img div 2), int (im_height img div 2)) 0 1
        = ((1, 0, 0), (0, 1, 0))
    \<and> rotate w img = Inr img"
  using warp_identity [of img "interp w"] assms
  by (simp add: turns_0 identity_matrix rotate_finite rotate_image_def rot90_def Let_def)

lemma frame12_wf: "wf_image frame12"
  by (simp add: wf_image_def frame12_def)

lemma nearest_frame12:
  "\<forall>y < im_height frame12. \<forall>x < im_width frame12.
     nearest frame12 (real x, real y) = im_rows frame12 ! y ! x"
  by (auto simp add: frame12_def nearest_def Let_def less_Suc_eq numeral_2_eq_2)

lemma upright_world_angle:
  "environ upright_world ''CAMERA_CALIBRATION_total_rotation_angle'' = Some ''0''
   \<and> float_of_string upright_world ''0'' = Some (Fin 0)
   \<and> interp upright_world = nearest"
  by (simp add: upright_world_def console_world_def float_table_def)

theorem rotate_zero_identity_witness:
  "wf_image frame12 \<and> rotate upright_world frame12 = Inr frame12"
  using rotate_zero_identity [of upright_world "''0''" frame12] frame12_wf nearest_frame12
    upright_world_angle
  by simp

subsection \<open>The entry point\<close>

text \<open>Without a \<^verbatim>\<open>camera\<close> variable the USB path runs; \<^verbatim>\<open>RPI\<close> selects the board camera.\<close>

lemma main_default: "environ w ''camera'' = None \<Longrightarrow> main w = usb_camera_photo w"
  by (simp add: main_def py_in_def)

lemma main_rpi: "environ w ''camera'' = Some ''RPI'' \<Longrightarrow> main w = rpi_camera_photo w"
  by (simp add: main_def py_in_def)

end
